theory Spec2Isabelle
  imports Complex_Main
begin

section \<open>AnimatedPosition: a draggable one-dimensional position\<close>

text \<open>
  A shallow embedding of \<^verbatim>\<open>juce_AnimatedPosition.h\<close>. The class is a template over
  a Behaviour and privately inherits a Timer; every member function becomes a function
  from the object's state to its new state. The clock reading that the code obtains from
  \<^verbatim>\<open>Time::getCurrentTime()\<close> is an explicit argument \<open>now\<close>.

  A \<^verbatim>\<open>double\<close> is modelled as a \<^typ>\<open>real\<close>: finite values with exact arithmetic.
  Rounding, infinities and NaN are outside this model.
\<close>

subsection \<open>Collaborators the header uses but does not define\<close>

text \<open>
  Modelled from the spec: the Time class (the external clock's timestamps) is not part
  of the header. A timestamp is the clock's reading in seconds, so that
  \<^verbatim>\<open>(now - last).inSeconds()\<close> is the difference \<open>now - last\<close>.
\<close>

type_synonym Time = real

text \<open>
  Modelled from the spec: \<^verbatim>\<open>jmax\<close> is not part of the header; the spec reads
  \<^verbatim>\<open>jmax (0.005, d)\<close> as \<open>max(0.005s, d)\<close>.
\<close>

definition jmax :: "real \<Rightarrow> real \<Rightarrow> real" where
  "jmax a b = (if a < b then b else a)"

text \<open>
  Modelled from the spec: \<^verbatim>\<open>jlimit\<close> is not part of the header; the spec reads
  \<^verbatim>\<open>jlimit (lo, hi, d)\<close> as \<open>d\<close> clamped into \<open>[lo, hi]\<close>.
\<close>

definition jlimit :: "real \<Rightarrow> real \<Rightarrow> real \<Rightarrow> real" where
  "jlimit lowerLimit upperLimit valueToConstrain =
     (if valueToConstrain < lowerLimit then lowerLimit
      else if upperLimit < valueToConstrain then upperLimit
      else valueToConstrain)"

text \<open>
  Modelled from the spec: the Range class is not part of the header. The spec describes
  it as an inclusive interval \<open>[min, max]\<close>, and \<^verbatim>\<open>clipValue\<close> as clamping a
  candidate value into it.
\<close>

record Range =
  range_min :: real
  range_max :: real

definition clipValue :: "Range \<Rightarrow> real \<Rightarrow> real" where
  "clipValue r v = jlimit (range_min r) (range_max r) v"

text \<open>
  Modelled from the spec: the Timer base class is not part of the header. The spec's
  Scheduler is a periodic timer with a settable period in milliseconds: starting it
  while it runs re-arms the period, stopping it is idempotent.
\<close>

datatype Timer = Stopped | Running int

text \<open>
  The Behaviour template argument is a parameter: the three member functions the header
  calls. A behaviour object carries its own state of type \<open>'b\<close>;
  \<^verbatim>\<open>releasedWithVelocity\<close> and \<^verbatim>\<open>getNextPosition\<close> may change it, and
  \<^verbatim>\<open>isStopped\<close> is a predicate on it, as the spec describes the three.
\<close>

record 'b Behaviour =
  releasedWithVelocity :: "real \<Rightarrow> real \<Rightarrow> 'b \<Rightarrow> 'b"
  getNextPosition :: "real \<Rightarrow> real \<Rightarrow> 'b \<Rightarrow> real \<times> 'b"
  isStopped :: "real \<Rightarrow> 'b \<Rightarrow> bool"

subsection \<open>The object's state\<close>

text \<open>
  The data members of the class, the state of the inherited Timer, and a log of the
  \<^verbatim>\<open>positionChanged\<close> callbacks made so far (listener, value passed). A listener is
  identified by a number. The member \<^verbatim>\<open>range\<close> is named \<open>range'\<close> here.
\<close>

record 'b AnimatedPosition =
  position :: real
  grabbedPos :: real
  releaseVelocity :: real
  range' :: Range
  lastUpdate :: Time
  lastDrag :: Time
  listeners :: "nat list"
  behaviour :: 'b
  timer :: Timer
  notifications :: "(nat \<times> real) list"

text \<open>The largest finite double, \<^verbatim>\<open>std::numeric_limits<double>::max()\<close>.\<close>

definition double_max :: real where
  "double_max = (2 ^ 53 - 1) * 2 ^ 971"

text \<open>
  The constructor: the three doubles are value-initialised to 0 and the range is the
  whole finite line. The two timestamps are default-constructed (time 0 here), no
  listener is registered and the timer is not running. The behaviour member is
  default-constructed; its initial state is the argument.
\<close>

definition AnimatedPosition_new :: "'b \<Rightarrow> 'b AnimatedPosition" where
  "AnimatedPosition_new b =
     \<lparr> position = 0, grabbedPos = 0, releaseVelocity = 0,
       range' = \<lparr> range_min = - double_max, range_max = double_max \<rparr>,
       lastUpdate = 0, lastDrag = 0, listeners = [], behaviour = b,
       timer = Stopped, notifications = [] \<rparr>"

subsection \<open>Timer and listener list\<close>

definition startTimer :: "int \<Rightarrow> 'b AnimatedPosition \<Rightarrow> 'b AnimatedPosition" where
  "startTimer intervalInMilliseconds s = s\<lparr> timer := Running intervalInMilliseconds \<rparr>"

definition stopTimer :: "'b AnimatedPosition \<Rightarrow> 'b AnimatedPosition" where
  "stopTimer s = s\<lparr> timer := Stopped \<rparr>"

text \<open>
  Modelled from the spec: the ListenerList class is not part of the header. Adding keeps
  the listeners distinct, and \<^verbatim>\<open>listeners.call\<close> invokes every registered listener
  once with the new value. The spec leaves the order of the calls open; the log lists
  them in registration order.
\<close>

definition addListener :: "nat \<Rightarrow> 'b AnimatedPosition \<Rightarrow> 'b AnimatedPosition" where
  "addListener listener s =
     (if listener \<in> set (listeners s) then s
      else s\<lparr> listeners := listeners s @ [listener] \<rparr>)"

definition removeListener :: "nat \<Rightarrow> 'b AnimatedPosition \<Rightarrow> 'b AnimatedPosition" where
  "removeListener listener s = s\<lparr> listeners := removeAll listener (listeners s) \<rparr>"

definition positionChanged_calls :: "'b AnimatedPosition \<Rightarrow> real \<Rightarrow> (nat \<times> real) list" where
  "positionChanged_calls s newPosition = map (\<lambda>l. (l, newPosition)) (listeners s)"

definition call_positionChanged :: "real \<Rightarrow> 'b AnimatedPosition \<Rightarrow> 'b AnimatedPosition" where
  "call_positionChanged newPosition s =
     s\<lparr> notifications := notifications s @ positionChanged_calls s newPosition \<rparr>"

subsection \<open>Private member functions\<close>

definition getSpeed :: "Time \<Rightarrow> real \<Rightarrow> Time \<Rightarrow> real \<Rightarrow> real" where
  "getSpeed last' lastPos now newPos =
     (let elapsedSecs = jmax 0.005 (now - last');
          v = (newPos - lastPos) / elapsedSecs
      in if \<bar>v\<bar> > 0.2 then v else 0)"

definition setPositionAndSendChange :: "real \<Rightarrow> 'b AnimatedPosition \<Rightarrow> 'b AnimatedPosition" where
  "setPositionAndSendChange newPosition s =
     (let newPosition = clipValue (range' s) newPosition
      in if position s \<noteq> newPosition
         then call_positionChanged newPosition (s\<lparr> position := newPosition \<rparr>)
         else s)"

definition moveTo :: "'b Behaviour \<Rightarrow> real \<Rightarrow> Time \<Rightarrow> 'b AnimatedPosition \<Rightarrow> 'b AnimatedPosition" where
  "moveTo B newPos now s =
     (let s1 = s\<lparr> releaseVelocity := getSpeed (lastDrag s) (position s) now newPos \<rparr>;
          s2 = s1\<lparr> behaviour := releasedWithVelocity B newPos (releaseVelocity s1) (behaviour s1) \<rparr>;
          s3 = s2\<lparr> lastDrag := now \<rparr>
      in setPositionAndSendChange newPos s3)"

definition timerCallback :: "'b Behaviour \<Rightarrow> Time \<Rightarrow> 'b AnimatedPosition \<Rightarrow> 'b AnimatedPosition" where
  "timerCallback B now s =
     (let elapsed = jlimit 0.001 0.020 (now - lastUpdate s);
          s1 = s\<lparr> lastUpdate := now \<rparr>;
          (newPos, b) = getNextPosition B (position s1) elapsed (behaviour s1);
          s2 = s1\<lparr> behaviour := b \<rparr>;
          s3 = (if isStopped B newPos (behaviour s2) then stopTimer s2
                else startTimer (1000 div 60) s2)
      in setPositionAndSendChange newPos s3)"

subsection \<open>Public member functions\<close>

definition setLimits :: "Range \<Rightarrow> 'b AnimatedPosition \<Rightarrow> 'b AnimatedPosition" where
  "setLimits newRange s = s\<lparr> range' := newRange \<rparr>"

definition beginDrag :: "'b AnimatedPosition \<Rightarrow> 'b AnimatedPosition" where
  "beginDrag s = stopTimer (s\<lparr> grabbedPos := position s, releaseVelocity := 0 \<rparr>)"

definition drag :: "'b Behaviour \<Rightarrow> real \<Rightarrow> Time \<Rightarrow> 'b AnimatedPosition \<Rightarrow> 'b AnimatedPosition" where
  "drag B deltaFromStartOfDrag now s = moveTo B (grabbedPos s + deltaFromStartOfDrag) now s"

definition endDrag :: "'b AnimatedPosition \<Rightarrow> 'b AnimatedPosition" where
  "endDrag s = startTimer (1000 div 60) s"

definition nudge :: "'b Behaviour \<Rightarrow> real \<Rightarrow> Time \<Rightarrow> 'b AnimatedPosition \<Rightarrow> 'b AnimatedPosition" where
  "nudge B deltaFromCurrentPosition now s =
     (let s1 = startTimer 100 s
      in moveTo B (position s1 + deltaFromCurrentPosition) now s1)"

definition getPosition :: "'b AnimatedPosition \<Rightarrow> real" where
  "getPosition s = position s"

definition setPosition :: "real \<Rightarrow> 'b AnimatedPosition \<Rightarrow> 'b AnimatedPosition" where
  "setPosition newPosition s = setPositionAndSendChange newPosition (stopTimer s)"

subsection \<open>The scheduler driving the object\<close>

text \<open>
  Modelled from the spec: the Timer base class, which is not part of the header, invokes
  \<^verbatim>\<open>timerCallback\<close> on a tick only while the timer is running; a stopped timer
  delivers no tick.
\<close>

definition tick :: "'b Behaviour \<Rightarrow> Time \<Rightarrow> 'b AnimatedPosition \<Rightarrow> 'b AnimatedPosition" where
  "tick B now s = (case timer s of Stopped \<Rightarrow> s | Running ms \<Rightarrow> timerCallback B now s)"

fun ticks :: "'b Behaviour \<Rightarrow> Time list \<Rightarrow> 'b AnimatedPosition \<Rightarrow> 'b AnimatedPosition" where
  "ticks B [] s = s"
| "ticks B (now # nows) s = ticks B nows (tick B now s)"

text \<open>A sequence of public operations and scheduler ticks, applied from left to right.\<close>

datatype Operation =
    SetLimits Range
  | BeginDrag
  | Drag real Time
  | EndDrag
  | Nudge real Time
  | SetPosition real
  | Tick Time

fun perform :: "'b Behaviour \<Rightarrow> Operation \<Rightarrow> 'b AnimatedPosition \<Rightarrow> 'b AnimatedPosition" where
  "perform B (SetLimits newRange) s = setLimits newRange s"
| "perform B BeginDrag s = beginDrag s"
| "perform B (Drag d now) s = drag B d now s"
| "perform B EndDrag s = endDrag s"
| "perform B (Nudge d now) s = nudge B d now s"
| "perform B (SetPosition x) s = setPosition x s"
| "perform B (Tick now) s = tick B now s"

fun performAll :: "'b Behaviour \<Rightarrow> Operation list \<Rightarrow> 'b AnimatedPosition \<Rightarrow> 'b AnimatedPosition" where
  "performAll B [] s = s"
| "performAll B (op # ops) s = performAll B ops (perform B op s)"

text \<open>Whether an operation replaces the range.\<close>

fun changesLimits :: "Operation \<Rightarrow> bool" where
  "changesLimits (SetLimits newRange) = True"
| "changesLimits BeginDrag = False"
| "changesLimits (Drag d now) = False"
| "changesLimits EndDrag = False"
| "changesLimits (Nudge d now) = False"
| "changesLimits (SetPosition x) = False"
| "changesLimits (Tick now) = False"

text \<open>The position lies within the current range.\<close>

definition withinLimits :: "'b AnimatedPosition \<Rightarrow> bool" where
  "withinLimits s =
     (range_min (range' s) \<le> getPosition s \<and> getPosition s \<le> range_max (range' s))"

subsection \<open>A behaviour to run the model on\<close>

text \<open>
  A momentum strategy with friction, for evaluating the model at concrete inputs; it is
  not one of the library's behaviours, which the header does not contain. Its state is
  a pair: the position last handed to \<^verbatim>\<open>releasedWithVelocity\<close>, and the current
  velocity, which a release sets. Each step advances by the velocity and halves it, and
  the motion counts as stopped once the speed is below one unit per second.
\<close>

definition momentum :: "(real \<times> real) Behaviour" where
  "momentum =
     \<lparr> releasedWithVelocity = (\<lambda>pos v b. (pos, v)),
       getNextPosition = (\<lambda>pos elapsed b. (pos + snd b * elapsed, (fst b, snd b / 2))),
       isStopped = (\<lambda>pos b. \<bar>snd b\<bar> < 1) \<rparr>"

definition start :: "(real \<times> real) AnimatedPosition" where
  "start = AnimatedPosition_new (0, 0)"

text \<open>
  An object with the range \<open>[0, 10]\<close> and one registered listener, at position 0.
\<close>

definition bounded :: "(real \<times> real) AnimatedPosition" where
  "bounded = addListener 7 (setLimits \<lparr> range_min = 0, range_max = 10 \<rparr> start)"

section \<open>Properties\<close>

subsection \<open>Helper facts\<close>

lemma jmax_is_max: "jmax a b = max a b"
  by (simp add: jmax_def max_def)

lemma jlimit_is_clamp: "lo \<le> hi \<Longrightarrow> jlimit lo hi v = max lo (min hi v)"
  by (simp add: jlimit_def max_def min_def)

lemma position_setPositionAndSendChange:
  "position (setPositionAndSendChange x s) = clipValue (range' s) x"
  by (simp add: setPositionAndSendChange_def call_positionChanged_def Let_def)

lemma range_setPositionAndSendChange:
  "range' (setPositionAndSendChange x s) = range' s"
  by (simp add: setPositionAndSendChange_def call_positionChanged_def Let_def)

lemma timer_setPositionAndSendChange:
  "timer (setPositionAndSendChange x s) = timer s"
  by (simp add: setPositionAndSendChange_def call_positionChanged_def Let_def)

lemma notifications_setPositionAndSendChange:
  "notifications (setPositionAndSendChange x s) =
     notifications s @
       (if clipValue (range' s) x = position s then []
        else positionChanged_calls s (clipValue (range' s) x))"
  by (simp add: setPositionAndSendChange_def call_positionChanged_def
      positionChanged_calls_def Let_def)

lemma if_less_swap: "(if (a::real) < b then x else y) = (if b \<le> a then y else x)"
  by auto

lemma clipValue_bounds:
  "range_min r \<le> range_max r \<Longrightarrow> range_min r \<le> clipValue r v \<and> clipValue r v \<le> range_max r"
  by (simp add: clipValue_def jlimit_def)

lemma moveTo_fields:
  "position (moveTo B newPos now s) = clipValue (range' s) newPos"
  "releaseVelocity (moveTo B newPos now s) = getSpeed (lastDrag s) (position s) now newPos"
  "behaviour (moveTo B newPos now s) =
     releasedWithVelocity B newPos (getSpeed (lastDrag s) (position s) now newPos) (behaviour s)"
  "lastDrag (moveTo B newPos now s) = now"
  "timer (moveTo B newPos now s) = timer s"
  "range' (moveTo B newPos now s) = range' s"
  "notifications (moveTo B newPos now s) =
     notifications s @
       (if clipValue (range' s) newPos = position s then []
        else map (\<lambda>l. (l, clipValue (range' s) newPos)) (listeners s))"
  by (simp_all add: moveTo_def setPositionAndSendChange_def call_positionChanged_def
      positionChanged_calls_def Let_def)

lemma timerCallback_fields:
  "position (timerCallback B now s) =
     clipValue (range' s)
       (fst (getNextPosition B (position s) (jlimit 0.001 0.020 (now - lastUpdate s)) (behaviour s)))"
  "range' (timerCallback B now s) = range' s"
  "lastUpdate (timerCallback B now s) = now"
  "behaviour (timerCallback B now s) =
     snd (getNextPosition B (position s) (jlimit 0.001 0.020 (now - lastUpdate s)) (behaviour s))"
  "timer (timerCallback B now s) =
     (let (newPos, b) =
            getNextPosition B (position s) (jlimit 0.001 0.020 (now - lastUpdate s)) (behaviour s)
      in if isStopped B newPos b then Stopped else Running 16)"
  "notifications (timerCallback B now s) =
     (let newPos = clipValue (range' s)
            (fst (getNextPosition B (position s) (jlimit 0.001 0.020 (now - lastUpdate s))
               (behaviour s)))
      in notifications s @
           (if newPos = position s then [] else map (\<lambda>l. (l, newPos)) (listeners s)))"
  by (simp_all add: timerCallback_def setPositionAndSendChange_def call_positionChanged_def
      positionChanged_calls_def Let_def stopTimer_def startTimer_def split: prod.splits)

lemma withinLimits_range: "withinLimits s \<Longrightarrow> range_min (range' s) \<le> range_max (range' s)"
  by (simp add: withinLimits_def)

lemma withinLimits_setPositionAndSendChange:
  assumes "range_min (range' s) \<le> range_max (range' s)"
  shows "withinLimits (setPositionAndSendChange x s)"
  using clipValue_bounds [OF assms, of x]
  by (simp add: withinLimits_def getPosition_def position_setPositionAndSendChange
      range_setPositionAndSendChange)

lemma withinLimits_moveTo:
  assumes "range_min (range' s) \<le> range_max (range' s)"
  shows "withinLimits (moveTo B x now s)"
  using clipValue_bounds [OF assms, of x]
  by (simp add: withinLimits_def getPosition_def moveTo_fields)

lemma withinLimits_timerCallback:
  assumes "range_min (range' s) \<le> range_max (range' s)"
  shows "withinLimits (timerCallback B now s)"
  using clipValue_bounds [OF assms]
  by (simp add: withinLimits_def getPosition_def timerCallback_fields)

lemma bounded_eq:
  "bounded =
     \<lparr> position = 0, grabbedPos = 0, releaseVelocity = 0,
       range' = \<lparr> range_min = 0, range_max = 10 \<rparr>,
       lastUpdate = 0, lastDrag = 0, listeners = [7], behaviour = (0, 0),
       timer = Stopped, notifications = [] \<rparr>"
  by (simp add: bounded_def addListener_def setLimits_def start_def AnimatedPosition_new_def)

lemma perform_withinLimits:
  assumes "withinLimits s" and "\<not> changesLimits op"
  shows "withinLimits (perform B op s)"
proof (cases op)
  case (SetLimits r)
  with assms(2) show ?thesis by simp
next
  case BeginDrag
  with assms(1) show ?thesis
    by (simp add: withinLimits_def getPosition_def beginDrag_def stopTimer_def)
next
  case (Drag d now)
  with assms(1) show ?thesis
    by (simp add: drag_def withinLimits_moveTo withinLimits_range)
next
  case EndDrag
  with assms(1) show ?thesis
    by (simp add: withinLimits_def getPosition_def endDrag_def startTimer_def)
next
  case (Nudge d now)
  from assms(1) have "range_min (range' (startTimer 100 s)) \<le> range_max (range' (startTimer 100 s))"
    by (simp add: withinLimits_def startTimer_def)
  with Nudge show ?thesis
    by (simp add: nudge_def Let_def withinLimits_moveTo)
next
  case (SetPosition x)
  from assms(1) have "range_min (range' (stopTimer s)) \<le> range_max (range' (stopTimer s))"
    by (simp add: withinLimits_def stopTimer_def)
  with SetPosition show ?thesis
    by (simp add: setPosition_def withinLimits_setPositionAndSendChange)
next
  case (Tick now)
  with assms(1) show ?thesis
    by (simp add: tick_def withinLimits_timerCallback withinLimits_range split: Timer.splits)
qed

lemma performAll_withinLimits:
  "withinLimits s \<Longrightarrow> list_all (\<lambda>op. \<not> changesLimits op) ops \<Longrightarrow>
     withinLimits (performAll B ops s)"
  by (induction ops arbitrary: s) (simp_all add: perform_withinLimits)

lemma ticks_while_stopped: "timer s = Stopped \<Longrightarrow> ticks B nows s = s"
  by (induction nows) (simp_all add: tick_def)

subsection \<open>The position and its range\<close>

text \<open>
  C1, as stated, fails: the position is not within the current range after every public
  operation. On a freshly constructed object (position 0), \<^verbatim>\<open>setLimits\<close> with the
  range \<open>[1, 2]\<close> leaves the position at 0, outside the new range.
\<close>

theorem setLimits_can_exclude_position:
  "\<not> withinLimits (performAll momentum [SetLimits \<lparr> range_min = 1, range_max = 2 \<rparr>] start)"
  by (simp add: withinLimits_def getPosition_def setLimits_def start_def AnimatedPosition_new_def)

text \<open>
  C1, amended: whenever the current range has \<open>min \<le> max\<close>, the position is within it
  after \<^verbatim>\<open>drag\<close>, \<^verbatim>\<open>nudge\<close>, \<^verbatim>\<open>setPosition\<close> and a timer callback, whatever it
  was before; \<^verbatim>\<open>setLimits\<close> leaves the stored position as it is; and from a state
  whose position is within its range, the position is within the range after every
  sequence of operations and scheduler ticks that contains no \<^verbatim>\<open>setLimits\<close>.
\<close>

theorem position_within_limits:
  assumes "range_min (range' s) \<le> range_max (range' s)"
  shows "withinLimits (drag B d now s) \<and> withinLimits (nudge B d now s) \<and>
         withinLimits (setPosition x s) \<and> withinLimits (timerCallback B now s) \<and>
         getPosition (setLimits r s) = getPosition s \<and>
         (withinLimits s \<and> list_all (\<lambda>op. \<not> changesLimits op) ops \<longrightarrow>
            withinLimits (performAll B ops s))"
proof -
  have "withinLimits (drag B d now s)"
    using assms by (simp add: drag_def withinLimits_moveTo)
  moreover have "withinLimits (nudge B d now s)"
    using assms by (simp add: nudge_def Let_def withinLimits_moveTo startTimer_def)
  moreover have "withinLimits (setPosition x s)"
    using assms by (simp add: setPosition_def withinLimits_setPositionAndSendChange stopTimer_def)
  moreover have "withinLimits (timerCallback B now s)"
    using assms by (rule withinLimits_timerCallback)
  moreover have "getPosition (setLimits r s) = getPosition s"
    by (simp add: getPosition_def setLimits_def)
  ultimately show ?thesis
    by (simp add: performAll_withinLimits)
qed

text \<open>
  C1, amended, at a concrete input: the object \<open>bounded\<close> with range \<open>[0, 10]\<close>, a drag
  to 15, a nudge by -30, a jump to 20, a timer callback, and a sequence of six operations.
\<close>

theorem position_within_limits_witness:
  "range_min (range' bounded) \<le> range_max (range' bounded) \<and>
   withinLimits (drag momentum 15 1 bounded) \<and> withinLimits (nudge momentum (-30) 1 bounded) \<and>
   withinLimits (setPosition 20 bounded) \<and> withinLimits (timerCallback momentum 1 bounded) \<and>
   getPosition (setLimits \<lparr> range_min = 5, range_max = 6 \<rparr> bounded) = getPosition bounded \<and>
   withinLimits bounded \<and>
   list_all (\<lambda>op. \<not> changesLimits op)
     [BeginDrag, Drag 15 1, EndDrag, Tick 2, Nudge (-30) 3, SetPosition 4] \<and>
   withinLimits
     (performAll momentum [BeginDrag, Drag 15 1, EndDrag, Tick 2, Nudge (-30) 3, SetPosition 4]
        bounded)"
proof -
  have h: "range_min (range' bounded) \<le> range_max (range' bounded)"
    by (simp add: bounded_eq)
  have w: "withinLimits bounded"
    by (simp add: bounded_eq withinLimits_def getPosition_def)
  have l: "list_all (\<lambda>op. \<not> changesLimits op)
     [BeginDrag, Drag 15 1, EndDrag, Tick 2, Nudge (-30) 3, SetPosition 4]"
    by simp
  show ?thesis
    using h w l
      position_within_limits [OF h, where B = momentum and d = 15 and now = 1 and x = 20
        and r = "\<lparr> range_min = 5, range_max = 6 \<rparr>"
        and ops = "[BeginDrag, Drag 15 1, EndDrag, Tick 2, Nudge (-30) 3, SetPosition 4]"]
      position_within_limits [OF h, where B = momentum and d = "-30" and now = 1]
    by simp
qed

subsection \<open>Velocity estimation\<close>

text \<open>
  C2: the estimated velocity is \<open>v = (newPos - lastPos) / elapsed\<close> with
  \<open>elapsed = max(0.005, now - last)\<close>, except that it is exactly 0 whenever
  \<open>|v| \<le> 0.2\<close>; and this estimate, taken from the last drag time and the stored
  position to the drag's target, is the release velocity a drag stores.
\<close>

theorem getSpeed_estimate:
  "getSpeed last' lastPos now newPos =
     (let elapsed = max 0.005 (now - last');
          v = (newPos - lastPos) / elapsed
      in if \<bar>v\<bar> \<le> 0.2 then 0 else v) \<and>
   releaseVelocity (drag B d t s) =
     getSpeed (lastDrag s) (position s) t (grabbedPos s + d)"
proof
  show "getSpeed last' lastPos now newPos =
     (let elapsed = max 0.005 (now - last');
          v = (newPos - lastPos) / elapsed
      in if \<bar>v\<bar> \<le> 0.2 then 0 else v)"
    unfolding getSpeed_def jmax_is_max Let_def if_less_swap ..
  show "releaseVelocity (drag B d t s) =
     getSpeed (lastDrag s) (position s) t (grabbedPos s + d)"
    by (simp add: drag_def moveTo_fields)
qed

text \<open>
  C2 at concrete samples: 3 units in one second give 3; 0.003 units in one millisecond
  are divided by the floor of 5 ms and give 0.6; 0.2 units in one second give 0.
\<close>

theorem getSpeed_estimate_witness:
  "getSpeed 2 1 3 4 = 3 \<and> getSpeed 2 1 2.001 1.003 = 0.6 \<and> getSpeed 2 1 3 1.2 = 0 \<and>
   releaseVelocity (drag momentum 4 1 bounded) = 4"
  using getSpeed_estimate [of 2 1 3 4 momentum 4 1 bounded]
    getSpeed_estimate [of 2 1 "2.001" "1.003" momentum 4 1 bounded]
    getSpeed_estimate [of 2 1 3 "1.2" momentum 4 1 bounded]
    getSpeed_estimate [of 0 0 1 4 momentum 4 1 bounded]
  by (simp add: bounded_eq)

text \<open>
  C3, as stated, fails: for \<open>lastPos = 0\<close>, \<open>newPos = 0.1\<close> and one second elapsed the
  estimator does not return 0.1.
\<close>

theorem getSpeed_example_below_noise_floor:
  "\<not> (getSpeed 0 0 1 0.1 = 0.1 \<and> getSpeed 0 0 1 0.05 = 0)"
  by (simp add: getSpeed_def jmax_def)

text \<open>
  C3, amended: for \<open>lastPos = 0\<close> and one second elapsed, the estimator returns exactly 0
  both for \<open>newPos = 0.1\<close> and for \<open>newPos = 0.05\<close>: neither speed exceeds 0.2.
\<close>

theorem getSpeed_examples:
  "getSpeed t 0 (t + 1) 0.1 = 0 \<and> getSpeed t 0 (t + 1) 0.05 = 0"
  by (simp add: getSpeed_def jmax_def)

text \<open>C3, amended, with the last drag at time 0 and the new sample at time 1.\<close>

theorem getSpeed_examples_witness:
  "getSpeed 0 0 1 0.1 = 0 \<and> getSpeed 0 0 1 0.05 = 0"
  using getSpeed_examples [of 0] by simp

subsection \<open>Clamp and publish\<close>

text \<open>
  C4: a write through \<^verbatim>\<open>setPositionAndSendChange\<close> stores the candidate clamped into
  the range and calls every registered listener once with it exactly when the clamped
  value differs from the stored position; when they are equal the object is left
  unchanged and no listener is called. The same holds for the writes that reach it from
  \<^verbatim>\<open>setPosition\<close>, \<^verbatim>\<open>drag\<close>, \<^verbatim>\<open>nudge\<close> and the timer callback.
\<close>

theorem listeners_called_iff_changed:
  "position (setPositionAndSendChange x s) = clipValue (range' s) x \<and>
   notifications (setPositionAndSendChange x s) =
     notifications s @
       (if clipValue (range' s) x = position s then []
        else map (\<lambda>l. (l, clipValue (range' s) x)) (listeners s)) \<and>
   (if clipValue (range' s) x = position s then setPositionAndSendChange x s = s
    else position (setPositionAndSendChange x s) \<noteq> position s) \<and>
   notifications (setPosition x s) =
     notifications s @
       (if clipValue (range' s) x = position s then []
        else map (\<lambda>l. (l, clipValue (range' s) x)) (listeners s)) \<and>
   notifications (drag B d now s) =
     notifications s @
       (if clipValue (range' s) (grabbedPos s + d) = position s then []
        else map (\<lambda>l. (l, clipValue (range' s) (grabbedPos s + d))) (listeners s)) \<and>
   notifications (nudge B d now s) =
     notifications s @
       (if clipValue (range' s) (position s + d) = position s then []
        else map (\<lambda>l. (l, clipValue (range' s) (position s + d))) (listeners s)) \<and>
   notifications (timerCallback B now s) =
     (let newPos = clipValue (range' s)
            (fst (getNextPosition B (position s) (jlimit 0.001 0.020 (now - lastUpdate s))
               (behaviour s)))
      in notifications s @
           (if newPos = position s then [] else map (\<lambda>l. (l, newPos)) (listeners s)))"
proof -
  have a: "position (setPositionAndSendChange x s) = clipValue (range' s) x"
    by (rule position_setPositionAndSendChange)
  have b: "notifications (setPositionAndSendChange x s) =
     notifications s @
       (if clipValue (range' s) x = position s then []
        else map (\<lambda>l. (l, clipValue (range' s) x)) (listeners s))"
    by (simp add: notifications_setPositionAndSendChange positionChanged_calls_def)
  have c: "(if clipValue (range' s) x = position s then setPositionAndSendChange x s = s
    else position (setPositionAndSendChange x s) \<noteq> position s)"
    by (simp add: setPositionAndSendChange_def call_positionChanged_def Let_def)
  have e: "notifications (setPosition x s) =
     notifications s @
       (if clipValue (range' s) x = position s then []
        else map (\<lambda>l. (l, clipValue (range' s) x)) (listeners s))"
    by (simp add: setPosition_def notifications_setPositionAndSendChange
        positionChanged_calls_def stopTimer_def)
  have f: "notifications (drag B d now s) =
     notifications s @
       (if clipValue (range' s) (grabbedPos s + d) = position s then []
        else map (\<lambda>l. (l, clipValue (range' s) (grabbedPos s + d))) (listeners s))"
    by (simp add: drag_def moveTo_fields)
  have g: "notifications (nudge B d now s) =
     notifications s @
       (if clipValue (range' s) (position s + d) = position s then []
        else map (\<lambda>l. (l, clipValue (range' s) (position s + d))) (listeners s))"
    by (simp add: nudge_def Let_def moveTo_fields startTimer_def)
  have h: "notifications (timerCallback B now s) =
     (let newPos = clipValue (range' s)
            (fst (getNextPosition B (position s) (jlimit 0.001 0.020 (now - lastUpdate s))
               (behaviour s)))
      in notifications s @
           (if newPos = position s then [] else map (\<lambda>l. (l, newPos)) (listeners s)))"
    by (rule timerCallback_fields)
  from a b c e f g h show ?thesis by (intro conjI)
qed

text \<open>
  C4 at concrete inputs on the object \<open>bounded\<close> (position 0, range \<open>[0, 10]\<close>,
  listener 7): a write of 12 is published as 10; writes that clamp to 0 call no listener.
\<close>

theorem listeners_called_iff_changed_witness:
  "notifications (setPositionAndSendChange 12 bounded) = [(7, 10)] \<and>
   position (setPositionAndSendChange 12 bounded) = 10 \<and>
   setPositionAndSendChange (-3) bounded = bounded \<and>
   notifications (setPosition (-3) bounded) = [] \<and>
   notifications (drag momentum 4 1 bounded) = [(7, 4)] \<and>
   notifications (nudge momentum (-4) 1 bounded) = [] \<and>
   notifications (timerCallback momentum 1 bounded) = []"
  using listeners_called_iff_changed [of 12 bounded momentum 4 1]
    listeners_called_iff_changed [of "-3" bounded momentum "-4" 1]
  by (simp add: bounded_eq clipValue_def jlimit_def momentum_def)

subsection \<open>Explicit jumps\<close>

text \<open>
  C5: after \<^verbatim>\<open>setPosition (x)\<close> the timer is stopped and \<^verbatim>\<open>getPosition()\<close> returns
  \<open>x\<close> clamped into the current range; scheduler ticks then change nothing, since a
  stopped timer delivers none.
\<close>

theorem setPosition_stops_motion:
  "timer (setPosition x s) = Stopped \<and>
   getPosition (setPosition x s) = clipValue (range' s) x \<and>
   ticks B nows (setPosition x s) = setPosition x s"
proof -
  have t: "timer (setPosition x s) = Stopped"
    by (simp add: setPosition_def timer_setPositionAndSendChange stopTimer_def)
  have p: "getPosition (setPosition x s) = clipValue (range' s) x"
    by (simp add: getPosition_def setPosition_def position_setPositionAndSendChange stopTimer_def)
  from t have "ticks B nows (setPosition x s) = setPosition x s"
    by (rule ticks_while_stopped)
  with t p show ?thesis by simp
qed

text \<open>
  C5 at a concrete input: the timer of \<open>bounded\<close> is started by \<^verbatim>\<open>endDrag\<close>, then
  \<^verbatim>\<open>setPosition (20)\<close> stops it and stores 10; three ticks change nothing.
\<close>

theorem setPosition_stops_motion_witness:
  "timer (setPosition 20 (endDrag bounded)) = Stopped \<and>
   getPosition (setPosition 20 (endDrag bounded)) = 10 \<and>
   ticks momentum [1, 2, 3] (setPosition 20 (endDrag bounded)) = setPosition 20 (endDrag bounded)"
  using setPosition_stops_motion [of 20 "endDrag bounded" momentum "[1, 2, 3]"]
  by (simp add: bounded_eq endDrag_def startTimer_def clipValue_def jlimit_def)

subsection \<open>Starting a drag\<close>

text \<open>
  C6: \<^verbatim>\<open>beginDrag\<close> is idempotent. Called twice in a row it yields the same state as
  called once: the grabbed position is the current position, the release velocity is 0,
  the timer is stopped, the position is unchanged and no listener is called.
\<close>

theorem beginDrag_idempotent:
  "beginDrag (beginDrag s) = beginDrag s \<and>
   grabbedPos (beginDrag s) = position s \<and>
   releaseVelocity (beginDrag s) = 0 \<and>
   timer (beginDrag s) = Stopped \<and>
   position (beginDrag s) = position s \<and>
   notifications (beginDrag s) = notifications s"
  by (simp add: beginDrag_def stopTimer_def)

text \<open>C6 at a concrete input: \<open>bounded\<close> after a nudge to 3, which left the timer running.\<close>

theorem beginDrag_idempotent_witness:
  "beginDrag (beginDrag (nudge momentum 3 1 bounded)) = beginDrag (nudge momentum 3 1 bounded) \<and>
   grabbedPos (beginDrag (nudge momentum 3 1 bounded)) = 3 \<and>
   timer (beginDrag (nudge momentum 3 1 bounded)) = Stopped"
  using beginDrag_idempotent [of "nudge momentum 3 1 bounded"]
  by (simp add: nudge_def Let_def moveTo_fields startTimer_def bounded_eq clipValue_def jlimit_def)

subsection \<open>Replacing the range\<close>

text \<open>
  C7: \<^verbatim>\<open>setLimits\<close> only replaces the stored range. The position is not re-clamped,
  no listener is called, the timer and every other member keep their values; the new
  range is applied by the next write through \<^verbatim>\<open>setPositionAndSendChange\<close>.
\<close>

theorem setLimits_frame:
  "range' (setLimits newRange s) = newRange \<and>
   position (setLimits newRange s) = position s \<and>
   notifications (setLimits newRange s) = notifications s \<and>
   timer (setLimits newRange s) = timer s \<and>
   grabbedPos (setLimits newRange s) = grabbedPos s \<and>
   releaseVelocity (setLimits newRange s) = releaseVelocity s \<and>
   lastUpdate (setLimits newRange s) = lastUpdate s \<and>
   lastDrag (setLimits newRange s) = lastDrag s \<and>
   listeners (setLimits newRange s) = listeners s \<and>
   behaviour (setLimits newRange s) = behaviour s \<and>
   position (setPositionAndSendChange x (setLimits newRange s)) = clipValue newRange x"
  by (simp add: setLimits_def position_setPositionAndSendChange)

text \<open>
  C7 at a concrete input: the range \<open>[5, 6]\<close> set on \<open>bounded\<close> leaves the position
  at 0; the next write of 0 stores 5.
\<close>

theorem setLimits_frame_witness:
  "position (setLimits \<lparr> range_min = 5, range_max = 6 \<rparr> bounded) = 0 \<and>
   notifications (setLimits \<lparr> range_min = 5, range_max = 6 \<rparr> bounded) = [] \<and>
   timer (setLimits \<lparr> range_min = 5, range_max = 6 \<rparr> bounded) = Stopped \<and>
   position (setPositionAndSendChange 0 (setLimits \<lparr> range_min = 5, range_max = 6 \<rparr> bounded)) = 5"
  using setLimits_frame [of "\<lparr> range_min = 5, range_max = 6 \<rparr>" bounded 0]
  by (simp add: bounded_eq clipValue_def jlimit_def)

subsection \<open>The timer callback\<close>

text \<open>
  C8: on a timer callback the elapsed time handed to the behaviour is
  \<open>now - lastUpdate\<close> clamped into \<open>[0.001, 0.020]\<close> seconds; \<open>lastUpdate\<close> becomes
  \<open>now\<close>; \<^verbatim>\<open>getNextPosition\<close> is called with the current position and that elapsed
  time; the timer is stopped if \<^verbatim>\<open>isStopped\<close> holds of the candidate and otherwise
  re-armed with the period \<^verbatim>\<open>1000 / 60\<close>, which is 16 ms in integer arithmetic; in
  both cases the candidate is clamped and stored, and the listeners are called only if the
  stored position changes.
\<close>

theorem timerCallback_step:
  "(let elapsed = max 0.001 (min 0.020 (now - lastUpdate s));
        (newPos, b) = getNextPosition B (position s) elapsed (behaviour s);
        clamped = clipValue (range' s) newPos;
        s' = timerCallback B now s
    in 0.001 \<le> elapsed \<and> elapsed \<le> 0.020 \<and>
       lastUpdate s' = now \<and>
       behaviour s' = b \<and>
       timer s' = (if isStopped B newPos b then Stopped else Running 16) \<and>
       position s' = clamped \<and>
       notifications s' =
         notifications s @
           (if clamped = position s then [] else map (\<lambda>l. (l, clamped)) (listeners s)))"
proof -
  have e: "jlimit 0.001 0.020 (now - lastUpdate s) = max 0.001 (min 0.020 (now - lastUpdate s))"
    by (rule jlimit_is_clamp) simp
  have b: "0.001 \<le> max 0.001 (min 0.020 (now - lastUpdate s)) \<and>
           max 0.001 (min 0.020 (now - lastUpdate s)) \<le> (0.020 :: real)"
    by (simp add: max_def min_def)
  show ?thesis
    using b unfolding Let_def timerCallback_fields e
    by (simp split: prod.splits)
qed

text \<open>
  C8 at concrete inputs: released at speed 8, a callback one second after the last
  update advances by the capped 20 ms to 4.16 and re-arms the timer; released at speed 1,
  the halved speed counts as stopped, the timer stops and 4.02 is still published.
\<close>

theorem timerCallback_step_witness:
  "lastUpdate (timerCallback momentum 1 (endDrag (drag momentum 4 0.5 bounded))) = 1 \<and>
   behaviour (timerCallback momentum 1 (endDrag (drag momentum 4 0.5 bounded))) = (4, 4) \<and>
   timer (timerCallback momentum 1 (endDrag (drag momentum 4 0.5 bounded))) = Running 16 \<and>
   position (timerCallback momentum 1 (endDrag (drag momentum 4 0.5 bounded))) = 4.16 \<and>
   notifications (timerCallback momentum 1 (endDrag (drag momentum 4 0.5 bounded))) =
     [(7, 4), (7, 4.16)] \<and>
   timer (timerCallback momentum 4.005 (endDrag (drag momentum 4 4 bounded))) = Stopped \<and>
   position (timerCallback momentum 4.005 (endDrag (drag momentum 4 4 bounded))) = 4.02"
proof -
  have s1: "endDrag (drag momentum 4 0.5 bounded) =
     \<lparr> position = 4, grabbedPos = 0, releaseVelocity = 8,
       range' = \<lparr> range_min = 0, range_max = 10 \<rparr>,
       lastUpdate = 0, lastDrag = 0.5, listeners = [7], behaviour = (4, 8),
       timer = Running 16, notifications = [(7, 4)] \<rparr>"
    by (simp add: endDrag_def startTimer_def drag_def moveTo_def setPositionAndSendChange_def
        call_positionChanged_def positionChanged_calls_def getSpeed_def jmax_def
        clipValue_def jlimit_def Let_def bounded_eq momentum_def)
  have s2: "endDrag (drag momentum 4 4 bounded) =
     \<lparr> position = 4, grabbedPos = 0, releaseVelocity = 1,
       range' = \<lparr> range_min = 0, range_max = 10 \<rparr>,
       lastUpdate = 0, lastDrag = 4, listeners = [7], behaviour = (4, 1),
       timer = Running 16, notifications = [(7, 4)] \<rparr>"
    by (simp add: endDrag_def startTimer_def drag_def moveTo_def setPositionAndSendChange_def
        call_positionChanged_def positionChanged_calls_def getSpeed_def jmax_def
        clipValue_def jlimit_def Let_def bounded_eq momentum_def)
  show ?thesis
    using timerCallback_step [of 1 "endDrag (drag momentum 4 0.5 bounded)" momentum]
      timerCallback_step [of "4.005" "endDrag (drag momentum 4 4 bounded)" momentum]
    unfolding s1 s2
    by (simp add: momentum_def clipValue_def jlimit_def Let_def)
qed

subsection \<open>Nudging\<close>

text \<open>
  C9, as stated, fails: the period \<^verbatim>\<open>nudge\<close> starts the timer with is not shorter
  than the period \<^verbatim>\<open>endDrag\<close> uses.
\<close>

theorem nudge_period_not_shorter:
  "\<not> (\<exists>p q. timer (nudge momentum 1 0 start) = Running p \<and>
             timer (endDrag start) = Running q \<and> p < q)"
  by (simp add: nudge_def Let_def moveTo_fields startTimer_def endDrag_def)

text \<open>
  C9, amended: \<^verbatim>\<open>nudge (delta)\<close> moves the stored position to the current position
  plus \<open>delta\<close> clamped into the range, through \<^verbatim>\<open>moveTo\<close>, and leaves the timer
  running with a period of 100 ms; the period \<^verbatim>\<open>endDrag\<close> uses is 16 ms, the
  shorter of the two.
\<close>

theorem nudge_moves_and_starts_timer:
  "position (nudge B d now s) = clipValue (range' s) (position s + d) \<and>
   position (nudge B d now s) - position s = clipValue (range' s) (position s + d) - position s \<and>
   nudge B d now s = moveTo B (position s + d) now (startTimer 100 s) \<and>
   timer (nudge B d now s) = Running 100 \<and>
   timer (endDrag s) = Running 16"
  by (simp add: nudge_def Let_def moveTo_fields startTimer_def endDrag_def)

text \<open>C9, amended, at a concrete input: a nudge of \<open>bounded\<close> by 15 stores 10.\<close>

theorem nudge_moves_and_starts_timer_witness:
  "position (nudge momentum 15 1 bounded) = 10 \<and>
   position (nudge momentum 15 1 bounded) - position bounded = 10 \<and>
   timer (nudge momentum 15 1 bounded) = Running 100 \<and>
   timer (endDrag bounded) = Running 16"
proof -
  note n = nudge_moves_and_starts_timer [of momentum 15 1 bounded]
  have c: "clipValue (range' bounded) (position bounded + 15) = 10"
    by (simp add: bounded_eq clipValue_def jlimit_def)
  have p: "position bounded = 0"
    by (simp add: bounded_eq)
  from n [THEN conjunct1] n [THEN conjunct2, THEN conjunct1]
    n [THEN conjunct2, THEN conjunct2, THEN conjunct2] c p
  show ?thesis by simp
qed

subsection \<open>What the behaviour is told\<close>

text \<open>
  C10: \<^verbatim>\<open>drag\<close> and \<^verbatim>\<open>nudge\<close> hand \<^verbatim>\<open>releasedWithVelocity\<close> the candidate
  position before it is clamped (the grabbed position plus the delta, respectively the
  current position plus the delta) together with the freshly estimated velocity; the
  last drag time and the release velocity are updated as well, also when the clamped
  candidate equals the stored position, in which case the position stays and no listener
  is called.
\<close>

theorem hook_sees_raw_candidate:
  "behaviour (drag B d now s) =
     releasedWithVelocity B (grabbedPos s + d)
       (getSpeed (lastDrag s) (position s) now (grabbedPos s + d)) (behaviour s) \<and>
   releaseVelocity (drag B d now s) =
     getSpeed (lastDrag s) (position s) now (grabbedPos s + d) \<and>
   lastDrag (drag B d now s) = now \<and>
   (clipValue (range' s) (grabbedPos s + d) = position s \<longrightarrow>
      position (drag B d now s) = position s \<and>
      notifications (drag B d now s) = notifications s) \<and>
   behaviour (nudge B d now s) =
     releasedWithVelocity B (position s + d)
       (getSpeed (lastDrag s) (position s) now (position s + d)) (behaviour s) \<and>
   releaseVelocity (nudge B d now s) =
     getSpeed (lastDrag s) (position s) now (position s + d) \<and>
   lastDrag (nudge B d now s) = now \<and>
   (clipValue (range' s) (position s + d) = position s \<longrightarrow>
      position (nudge B d now s) = position s \<and>
      notifications (nudge B d now s) = notifications s)"
  by (simp add: drag_def nudge_def Let_def moveTo_fields startTimer_def)

text \<open>
  C10 at a concrete input: a drag and a nudge of \<open>bounded\<close> by -5 have the candidate -5
  below the range \<open>[0, 10]\<close>. The behaviour's state records the position -5 and the
  velocity -5 it was handed, while the stored position stays 0 and no listener is called.
\<close>

theorem hook_sees_raw_candidate_witness:
  "grabbedPos bounded + (-5) < range_min (range' bounded) \<and>
   clipValue (range' bounded) (grabbedPos bounded + (-5)) = position bounded \<and>
   behaviour (drag momentum (-5) 1 bounded) = (-5, -5) \<and>
   releaseVelocity (drag momentum (-5) 1 bounded) = -5 \<and>
   lastDrag (drag momentum (-5) 1 bounded) = 1 \<and>
   position (drag momentum (-5) 1 bounded) = position bounded \<and>
   notifications (drag momentum (-5) 1 bounded) = notifications bounded \<and>
   clipValue (range' bounded) (position bounded + (-5)) = position bounded \<and>
   behaviour (nudge momentum (-5) 1 bounded) = (-5, -5) \<and>
   releaseVelocity (nudge momentum (-5) 1 bounded) = -5 \<and>
   lastDrag (nudge momentum (-5) 1 bounded) = 1 \<and>
   position (nudge momentum (-5) 1 bounded) = position bounded \<and>
   notifications (nudge momentum (-5) 1 bounded) = notifications bounded"
proof -
  have c: "clipValue (range' bounded) (grabbedPos bounded + (-5)) = position bounded"
    by (simp add: bounded_eq clipValue_def jlimit_def)
  have c': "clipValue (range' bounded) (position bounded + (-5)) = position bounded"
    by (simp add: bounded_eq clipValue_def jlimit_def)
  have o: "grabbedPos bounded + (-5) < range_min (range' bounded)"
    by (simp add: bounded_eq)
  have v: "getSpeed (lastDrag bounded) (position bounded) 1 (grabbedPos bounded + (-5)) = -5"
    "getSpeed (lastDrag bounded) (position bounded) 1 (position bounded + (-5)) = -5"
    by (simp_all add: bounded_eq getSpeed_def jmax_def)
  have g: "grabbedPos bounded + (-5) = -5" "position bounded + (-5) = -5"
    by (simp_all add: bounded_eq)
  from hook_sees_raw_candidate [of momentum "-5" 1 bounded] c c' o v g
  show ?thesis
    by (simp add: momentum_def)
qed

end
